theory Spec2Isabelle
  imports Complex_Main "HOL-Library.Sublist" "HOL-Library.Multiset"
begin

section \<open>Strings, characters and numbers of the JavaScript runtime\<close>

text \<open>
  A JavaScript string is a sequence of UTF-16 code units. The model works on \<^typ>\<open>string\<close>:
  a \<^typ>\<open>char\<close> stands for the code unit with the same code, so the texts covered are those
  whose code units lie below 256. All pattern literals and keywords of the program are ASCII.
\<close>

definition code :: "char \<Rightarrow> nat" where
  "code c = of_char c"

text \<open>The class \<open>\d\<close>: the ten ASCII digits.\<close>

definition isDigit :: "char \<Rightarrow> bool" where
  "isDigit c = (c \<in> set ''0123456789'')"

text \<open>
  The class \<open>\s\<close>: white space and line terminators. Below 256 these are TAB, LF, VT, FF,
  CR, SPACE and NO-BREAK SPACE.
\<close>

definition isSpace :: "char \<Rightarrow> bool" where
  "isSpace c = (c \<in> set [CHR 0x09, CHR 0x0A, CHR 0x0B, CHR 0x0C, CHR 0x0D, CHR 0x20, CHR 0xA0])"

text \<open>The class \<open>.\<close> (without the \<open>s\<close> flag): every code unit but a line terminator.\<close>

definition isLineTerminator :: "char \<Rightarrow> bool" where
  "isLineTerminator c = (c \<in> set [CHR 0x0A, CHR 0x0D])"

text \<open>
  \<open>Canonicalize\<close> of the \<open>i\<close> flag: the upper-case form of a letter. A code unit above 127
  never canonicalizes to an ASCII one, so against the ASCII pattern literals of this program
  only the 26 ASCII letters fold.
\<close>

definition small_letters :: string where
  "small_letters = ''abcdefghijklmnopqrstuvwxyz''"

definition capital_letters :: string where
  "capital_letters = ''ABCDEFGHIJKLMNOPQRSTUVWXYZ''"

definition canonicalize :: "char \<Rightarrow> char" where
  "canonicalize c =
     (case map_of (zip small_letters capital_letters) c of None \<Rightarrow> c | Some u \<Rightarrow> u)"

text \<open>
  \<open>String.prototype.toLowerCase\<close> on code units below 256: the ASCII capitals and the
  Latin-1 capitals (all of 192..222 but the multiplication sign 215) move up by 32.
\<close>

definition toLowerCase_char :: "char \<Rightarrow> char" where
  "toLowerCase_char c =
     (case map_of (zip capital_letters small_letters) c of
        Some l \<Rightarrow> l
      | None \<Rightarrow>
          if 192 \<le> code c \<and> code c \<le> 222 \<and> code c \<noteq> 215 then char_of (code c + 32) else c)"

definition toLowerCase :: "string \<Rightarrow> string" where
  "toLowerCase s = map toLowerCase_char s"

text \<open>
  The integer results of \<open>parseInt\<close>: a natural number or \<open>NaN\<close>. Numbers are exact
  (the rounding of a double above \<open>2^53\<close> is not modelled).
\<close>

datatype number = NaN | Num nat

definition digit_value :: "char \<Rightarrow> nat" where
  "digit_value c = code c - code (CHR ''0'')"

text \<open>
  \<open>parseInt\<close> on the strings this program passes to it (a run of decimal digits first):
  the value of the leading digits, \<open>NaN\<close> when there is none.
\<close>

definition digits_value :: "string \<Rightarrow> nat" where
  "digits_value ds = foldl (\<lambda>a x. 10 * a + digit_value x) 0 ds"

definition parseInt :: "string \<Rightarrow> number" where
  "parseInt s =
     (case takeWhile isDigit s of
        [] \<Rightarrow> NaN
      | d # ds \<Rightarrow> Num (digits_value (d # ds)))"

definition digit_char :: "nat \<Rightarrow> char" where
  "digit_char n = ''0123456789'' ! n"

fun decimal :: "nat \<Rightarrow> string" where
  "decimal n = (if n < 10 then [digit_char n] else decimal (n div 10) @ [digit_char (n mod 10)])"

declare decimal.simps [simp del]

text \<open>A number inside a template literal.\<close>

fun number_to_string :: "number \<Rightarrow> string" where
  "number_to_string NaN = ''NaN''"
| "number_to_string (Num n) = decimal n"

text \<open>Truthiness of a number: \<open>0\<close> and \<open>NaN\<close> are falsy.\<close>

fun truthy_number :: "number \<Rightarrow> bool" where
  "truthy_number NaN = False"
| "truthy_number (Num n) = (n \<noteq> 0)"

section \<open>Regular expressions\<close>

text \<open>
  The patterns of the program use literals, the classes \<open>\d\<close>, \<open>\s\<close> and \<open>.\<close> under the
  quantifiers \<open>+\<close>, \<open>*\<close> and \<open>*?\<close>, optional groups, alternatives and capturing groups, all
  under the \<open>i\<close> flag.
\<close>

datatype cls = Digit | Space | Dot

fun in_cls :: "cls \<Rightarrow> char \<Rightarrow> bool" where
  "in_cls Digit c = isDigit c"
| "in_cls Space c = isSpace c"
| "in_cls Dot c = (\<not> isLineTerminator c)"

datatype regex =
    Lit string
  | Plus cls
  | Star cls
  | LazyStar cls
  | Opt regex
  | Alt regex regex
  | Seq regex regex
  | Group nat regex

fun cat :: "regex list \<Rightarrow> regex" where
  "cat [] = Lit []"
| "cat [r] = r"
| "cat (r # rs) = Seq r (cat rs)"

text \<open>The captures of a match: the groups that took part, the latest first.\<close>

type_synonym captures = "(nat \<times> string) list"

text \<open>
  A backtracking matcher as a list of successes: \<open>matches r (s, c)\<close> lists, in the order in
  which backtracking tries them, the rest of the input and the captures after \<open>r\<close> has
  matched a prefix of \<open>s\<close>. The first element is the match the engine settles on when
  nothing follows. A greedy quantifier tries the longest run first, a lazy one the shortest;
  an optional part is tried before it is skipped, and a try that consumes nothing is dropped,
  as the engine does with an empty iteration; a sequence continues every result of its first
  part, in order, with its second part. No group of these patterns stands inside a
  repetition that can run twice, so a capture is never reset.
\<close>

fun greedy :: "(char \<Rightarrow> bool) \<Rightarrow> string \<Rightarrow> string list" where
  "greedy p [] = [[]]"
| "greedy p (x # s) = (if p x then greedy p s @ [x # s] else [x # s])"

fun lazy :: "(char \<Rightarrow> bool) \<Rightarrow> string \<Rightarrow> string list" where
  "lazy p [] = [[]]"
| "lazy p (x # s) = (x # s) # (if p x then lazy p s else [])"

text \<open>A literal against the start of the input; the result is the rest of the input.\<close>

fun strip_literal :: "string \<Rightarrow> string \<Rightarrow> string option" where
  "strip_literal [] s = Some s"
| "strip_literal (k # ks) [] = None"
| "strip_literal (k # ks) (x # s) =
     (if canonicalize x = canonicalize k then strip_literal ks s else None)"

fun matches :: "regex \<Rightarrow> string \<times> captures \<Rightarrow> (string \<times> captures) list" where
  "matches (Lit w) (s, c) = (case strip_literal w s of None \<Rightarrow> [] | Some s' \<Rightarrow> [(s', c)])"
| "matches (Plus k) (s, c) =
     (case s of [] \<Rightarrow> []
      | x # s' \<Rightarrow> if in_cls k x then map (\<lambda>r. (r, c)) (greedy (in_cls k) s') else [])"
| "matches (Star k) (s, c) = map (\<lambda>r. (r, c)) (greedy (in_cls k) s)"
| "matches (LazyStar k) (s, c) = map (\<lambda>r. (r, c)) (lazy (in_cls k) s)"
| "matches (Opt r) (s, c) =
     filter (\<lambda>m. length (fst m) < length s) (matches r (s, c)) @ [(s, c)]"
| "matches (Alt r1 r2) (s, c) = matches r1 (s, c) @ matches r2 (s, c)"
| "matches (Seq r1 r2) (s, c) = concat (map (matches r2) (matches r1 (s, c)))"
| "matches (Group i r) (s, c) =
     map (\<lambda>m. (fst m, (i, take (length s - length (fst m)) s) # snd m)) (matches r (s, c))"

text \<open>
  \<open>String.prototype.match\<close> with a pattern without the \<open>g\<close> flag: the first match at the
  leftmost start index, \<open>None\<close> for \<open>null\<close>. Only the captures of the match are kept.
\<close>

fun exec :: "regex \<Rightarrow> string \<Rightarrow> captures option" where
  "exec r [] = (case matches r ([], []) of [] \<Rightarrow> None | m # _ \<Rightarrow> Some (snd m))"
| "exec r (x # s) =
     (case matches r (x # s, []) of [] \<Rightarrow> exec r s | m # _ \<Rightarrow> Some (snd m))"

declare exec.simps [simp del]

text \<open>\<open>RegExp.prototype.test\<close>.\<close>

definition test :: "regex \<Rightarrow> string \<Rightarrow> bool" where
  "test r s = (exec r s \<noteq> None)"

text \<open>\<open>match[i]\<close>: \<open>None\<close> when the group did not take part (\<open>undefined\<close>).\<close>

definition group :: "captures \<Rightarrow> nat \<Rightarrow> string option" where
  "group m i = map_of m i"

section \<open>The requirement and rule parser\<close>

subsection \<open>The patterns\<close>

text \<open>\<^verbatim>\<open>/(\d+)\s*(?:combined\s*)?karma/i\<close>, \<^verbatim>\<open>/karma.*?(\d+)/i\<close> and
  \<^verbatim>\<open>/minimum.*?(\d+).*?karma/i\<close>.\<close>

definition karma1 :: regex where
  "karma1 = cat [Group 1 (Plus Digit), Star Space, Opt (cat [Lit ''combined'', Star Space]),
     Lit ''karma'']"

definition karma2 :: regex where
  "karma2 = cat [Lit ''karma'', LazyStar Dot, Group 1 (Plus Digit)]"

definition karma3 :: regex where
  "karma3 = cat [Lit ''minimum'', LazyStar Dot, Group 1 (Plus Digit), LazyStar Dot,
     Lit ''karma'']"

definition karmaPatterns :: "regex list" where
  "karmaPatterns = [karma1, karma2, karma3]"

text \<open>\<^verbatim>\<open>/(\d+)\s*days?\s*old/i\<close>, \<^verbatim>\<open>/account.*?(\d+)\s*days/i\<close> and
  \<^verbatim>\<open>/(\d+)\s*day.*?account/i\<close>.\<close>

definition age1 :: regex where
  "age1 = cat [Group 1 (Plus Digit), Star Space, Lit ''day'', Opt (Lit ''s''), Star Space,
     Lit ''old'']"

definition age2 :: regex where
  "age2 = cat [Lit ''account'', LazyStar Dot, Group 1 (Plus Digit), Star Space, Lit ''days'']"

definition age3 :: regex where
  "age3 = cat [Group 1 (Plus Digit), Star Space, Lit ''day'', LazyStar Dot, Lit ''account'']"

definition agePatterns :: "regex list" where
  "agePatterns = [age1, age2, age3]"

text \<open>\<^verbatim>\<open>/verif(y|ied|ication)/i\<close>.\<close>

definition verifPattern :: regex where
  "verifPattern = cat [Lit ''verif'', Group 1 (Alt (Lit ''y'') (Alt (Lit ''ied'') (Lit ''ication'')))]"

text \<open>\<^verbatim>\<open>/no\s*(external\s*)?links?/i\<close>.\<close>

definition noLinksPattern :: regex where
  "noLinksPattern = cat [Lit ''no'', Star Space, Opt (Group 1 (cat [Lit ''external'', Star Space])),
     Lit ''link'', Opt (Lit ''s'')]"

text \<open>\<^verbatim>\<open>/links?\s*(only\s*)?(in\s*)?profile/i\<close>.\<close>

definition profileLinksPattern :: regex where
  "profileLinksPattern = cat [Lit ''link'', Opt (Lit ''s''), Star Space,
     Opt (Group 1 (cat [Lit ''only'', Star Space])), Opt (Group 2 (cat [Lit ''in'', Star Space])),
     Lit ''profile'']"

text \<open>\<^verbatim>\<open>/(\d+)\s*(?:posts?|submissions?)\s*per\s*(\d+)?\s*(hour|day)/i\<close>.\<close>

definition freqPattern :: regex where
  "freqPattern = cat [Group 1 (Plus Digit), Star Space,
     Alt (cat [Lit ''post'', Opt (Lit ''s'')]) (cat [Lit ''submission'', Opt (Lit ''s'')]),
     Star Space, Lit ''per'', Star Space, Opt (Group 2 (Plus Digit)), Star Space,
     Group 3 (Alt (Lit ''hour'') (Lit ''day''))]"

subsection \<open>The parser's result\<close>

text \<open>
  The fields both parsers fill. \<open>None\<close> in a number or string field is \<open>null\<close>.
  \<open>allows_links_in_profile_only\<close> is not in the initializer of either parser: \<open>None\<close> is
  the property being absent. \<open>rules_raw\<close> and \<open>rules_summary\<close> are always assigned before
  the result is returned.
\<close>

record requirements =
  min_karma :: "number option"
  min_account_age_days :: "number option"
  requires_verification :: bool
  allows_links_in_post :: bool
  allows_links_in_comments :: bool
  allows_links_in_profile_only :: "bool option"
  posting_frequency_limit :: "string option"
  posting_frequency_hours :: "number option"
  rules_raw :: string
  rules_summary :: string

text \<open>The fields only the server-side parser has.\<close>

record server_requirements = requirements +
  min_post_karma :: "number option"
  min_comment_karma :: "number option"
  verification_instructions :: "string option"
  required_flairs :: "string list"
  banned_words :: "string list"
  content_types_allowed :: "string list"

subsection \<open>The steps both parsers share\<close>

text \<open>
  The two parsers hold the same text for the checks of verification, links and posting
  frequency and for the first five lines of the summary, and assign the karma and the age
  minimum in the same way from the match they found.
\<close>

text \<open>\<open>parseInt(match[i])\<close>; a group that did not take part is \<open>undefined\<close>, which parses
  to \<open>NaN\<close>.\<close>

definition parseInt_group :: "captures \<Rightarrow> nat \<Rightarrow> number" where
  "parseInt_group m i = (case group m i of None \<Rightarrow> NaN | Some s \<Rightarrow> parseInt s)"

definition set_min_karma :: "captures option \<Rightarrow> 'a requirements_scheme \<Rightarrow> 'a requirements_scheme" where
  "set_min_karma match requirements =
     (case match of None \<Rightarrow> requirements
      | Some m \<Rightarrow> requirements\<lparr>min_karma := Some (parseInt_group m 1)\<rparr>)"

definition set_min_account_age_days ::
  "captures option \<Rightarrow> 'a requirements_scheme \<Rightarrow> 'a requirements_scheme" where
  "set_min_account_age_days match requirements =
     (case match of None \<Rightarrow> requirements
      | Some m \<Rightarrow> requirements\<lparr>min_account_age_days := Some (parseInt_group m 1)\<rparr>)"

definition check_verification :: "string \<Rightarrow> 'a requirements_scheme \<Rightarrow> 'a requirements_scheme" where
  "check_verification rulesText requirements =
     (if test verifPattern rulesText then requirements\<lparr>requires_verification := True\<rparr>
      else requirements)"

definition check_no_links :: "string \<Rightarrow> 'a requirements_scheme \<Rightarrow> 'a requirements_scheme" where
  "check_no_links rulesText requirements =
     (if test noLinksPattern rulesText
      then requirements\<lparr>allows_links_in_post := False, allows_links_in_comments := False\<rparr>
      else requirements)"

definition check_profile_links :: "string \<Rightarrow> 'a requirements_scheme \<Rightarrow> 'a requirements_scheme" where
  "check_profile_links rulesText requirements =
     (if test profileLinksPattern rulesText
      then requirements\<lparr>allows_links_in_post := False, allows_links_in_comments := False,
             allows_links_in_profile_only := Some True\<rparr>
      else requirements)"

text \<open>
  \<open>unit === 'day' ? 24 : parseInt(freqMatch[2] || 1)\<close>. Group 3 is not optional in the
  pattern, so \<open>freqMatch[3]\<close> is a string whenever the pattern matches
  (lemma \<open>frequency_hours_match\<close> below); the branch for an absent group 3 is never taken.
\<close>

definition frequency_hours :: "captures \<Rightarrow> number option" where
  "frequency_hours freqMatch =
     (case group freqMatch 3 of None \<Rightarrow> None
      | Some u \<Rightarrow>
          let unit = toLowerCase u in
          Some (if unit = ''day'' then Num 24
                else (case group freqMatch 2 of None \<Rightarrow> Num 1
                      | Some d \<Rightarrow> if d = [] then Num 1 else parseInt d)))"

definition check_frequency :: "string \<Rightarrow> 'a requirements_scheme \<Rightarrow> 'a requirements_scheme" where
  "check_frequency rulesText requirements =
     (case exec freqPattern rulesText of None \<Rightarrow> requirements
      | Some freqMatch \<Rightarrow>
          (case frequency_hours freqMatch of None \<Rightarrow> requirements
           | Some hours \<Rightarrow>
               requirements\<lparr>posting_frequency_hours := Some hours,
                 posting_frequency_limit := Some (''1 per '' @ number_to_string hours @ '' hours'')\<rparr>))"

text \<open>The lines of the summary, pushed in this order by both parsers.\<close>

definition truthy :: "number option \<Rightarrow> bool" where
  "truthy v = (case v of None \<Rightarrow> False | Some n \<Rightarrow> truthy_number n)"

definition template_number :: "number option \<Rightarrow> string" where
  "template_number v = (case v of None \<Rightarrow> ''null'' | Some n \<Rightarrow> number_to_string n)"

definition truthy_string :: "string option \<Rightarrow> bool" where
  "truthy_string v = (case v of None \<Rightarrow> False | Some s \<Rightarrow> s \<noteq> [])"

definition template_string :: "string option \<Rightarrow> string" where
  "template_string v = (case v of None \<Rightarrow> ''null'' | Some s \<Rightarrow> s)"

definition push_if :: "bool \<Rightarrow> 'a \<Rightarrow> 'a list \<Rightarrow> 'a list" where
  "push_if b x parts = (if b then parts @ [x] else parts)"

definition common_parts :: "'a requirements_scheme \<Rightarrow> string list" where
  "common_parts requirements =
     (let parts = [];
          parts = push_if (truthy (min_karma requirements))
                    (''Need '' @ template_number (min_karma requirements) @ '' karma'') parts;
          parts = push_if (truthy (min_account_age_days requirements))
                    (''Account must be '' @ template_number (min_account_age_days requirements)
                       @ ''+ days old'') parts;
          parts = push_if (requires_verification requirements) ''Verification required'' parts;
          parts = push_if (truthy_string (posting_frequency_limit requirements))
                    (''Posting limit: '' @ template_string (posting_frequency_limit requirements))
                    parts;
          parts = push_if (\<not> allows_links_in_post requirements)
                    ''No links in posts (profile only)'' parts
      in parts)"

text \<open>\<open>Array.prototype.join\<close>.\<close>

fun join :: "string \<Rightarrow> string list \<Rightarrow> string" where
  "join sep [] = []"
| "join sep [x] = x"
| "join sep (x # xs) = x @ sep @ join sep xs"

definition newline :: string where
  "newline = [CHR 0x0A]"

definition summary_of_parts :: "string list \<Rightarrow> string" where
  "summary_of_parts parts =
     (if length parts > 0 then join newline parts else ''No special requirements found'')"

subsection \<open>The server-side parser\<close>

text \<open>The loop over a pattern list that stops at the first pattern that matches.\<close>

fun first_match :: "regex list \<Rightarrow> string \<Rightarrow> captures option" where
  "first_match [] rulesText = None"
| "first_match (pattern # patterns) rulesText =
     (case exec pattern rulesText of
        Some m \<Rightarrow> Some m
      | None \<Rightarrow> first_match patterns rulesText)"

text \<open>
  What the scraper reads of the subreddit object: its sidebar text (\<open>None\<close> for a missing
  one), its names, and the results of \<open>getRules()\<close>, \<open>getLinkFlairTemplates()\<close>,
  \<open>getHot()\<close> and \<open>getTop()\<close>, \<open>None\<close> when the call throws. A flair's text is \<open>None\<close>
  when it is \<open>null\<close>. A post carries its score, its comment count and its creation time in
  seconds.
\<close>

record rule =
  short_name :: string
  rule_description :: string
  violation_reason :: string

record post =
  score :: int
  num_comments :: int
  created_utc :: int

record subreddit =
  description :: "string option"
  getRules :: "rule list option"
  getLinkFlairTemplates :: "string option list option"
  display_name :: string
  public_description :: "string option"
  getHot :: "post list option"
  getTop :: "post list option"

definition rule_line :: "rule \<Rightarrow> string" where
  "rule_line rule = newline @ short_name rule @ '': '' @
     (if rule_description rule \<noteq> [] then rule_description rule else violation_reason rule)"

definition build_rulesText :: "subreddit \<Rightarrow> string" where
  "build_rulesText subreddit =
     (let rulesText = [];
          rulesText = rulesText @ (case description subreddit of None \<Rightarrow> [] | Some d \<Rightarrow> d);
          rulesText = (case getRules subreddit of None \<Rightarrow> rulesText
                       | Some rules \<Rightarrow> foldl (\<lambda>t rule. t @ rule_line rule) rulesText rules)
      in rulesText)"

text \<open>\<open>flairs.map(f => f.text).filter(Boolean)\<close>.\<close>

definition flair_texts :: "string option list \<Rightarrow> string list" where
  "flair_texts flairs = concat (map (\<lambda>f. case f of None \<Rightarrow> [] | Some t \<Rightarrow> if t = [] then [] else [t]) flairs)"

definition get_flairs :: "subreddit \<Rightarrow> server_requirements \<Rightarrow> server_requirements" where
  "get_flairs subreddit requirements =
     (case getLinkFlairTemplates subreddit of None \<Rightarrow> requirements
      | Some flairs \<Rightarrow> requirements\<lparr>required_flairs := flair_texts flairs\<rparr>)"

definition generateRulesSummary :: "server_requirements \<Rightarrow> string" where
  "generateRulesSummary requirements =
     (let parts = common_parts requirements;
          parts = push_if (length (required_flairs requirements) > 0) ''Must use flair'' parts
      in summary_of_parts parts)"

definition initial_requirements :: server_requirements where
  "initial_requirements =
     \<lparr>min_karma = None, min_account_age_days = None, requires_verification = False,
      allows_links_in_post = True, allows_links_in_comments = True,
      allows_links_in_profile_only = None,
      posting_frequency_limit = None, posting_frequency_hours = None,
      rules_raw = [], rules_summary = [],
      min_post_karma = None, min_comment_karma = None, verification_instructions = None,
      required_flairs = [], banned_words = [],
      content_types_allowed = [''image'', ''video'', ''gif'', ''text'']\<rparr>"

definition parseRules :: "subreddit \<Rightarrow> server_requirements" where
  "parseRules subreddit =
     (let requirements = initial_requirements;
          rulesText = build_rulesText subreddit;
          requirements = set_min_karma (first_match karmaPatterns rulesText) requirements;
          requirements = set_min_account_age_days (first_match agePatterns rulesText) requirements;
          requirements = check_verification rulesText requirements;
          requirements = check_no_links rulesText requirements;
          requirements = check_profile_links rulesText requirements;
          requirements = check_frequency rulesText requirements;
          requirements = get_flairs subreddit requirements;
          requirements = requirements\<lparr>rules_raw := rulesText\<rparr>;
          requirements = requirements\<lparr>rules_summary := generateRulesSummary requirements\<rparr>
      in requirements)"

subsection \<open>The browser-side parser\<close>

definition client_initial_requirements :: "string \<Rightarrow> requirements" where
  "client_initial_requirements rulesText =
     \<lparr>min_karma = None, min_account_age_days = None, requires_verification = False,
      allows_links_in_post = True, allows_links_in_comments = True,
      allows_links_in_profile_only = None,
      posting_frequency_limit = None, posting_frequency_hours = None,
      rules_raw = rulesText, rules_summary = []\<rparr>"

definition client_parseRules :: "string \<Rightarrow> requirements" where
  "client_parseRules rulesText =
     (let requirements = client_initial_requirements rulesText;
          requirements = set_min_karma (exec karma1 rulesText) requirements;
          requirements = set_min_account_age_days (exec age1 rulesText) requirements;
          requirements = check_verification rulesText requirements;
          requirements = check_no_links rulesText requirements;
          requirements = check_profile_links rulesText requirements;
          requirements = check_frequency rulesText requirements;
          parts = common_parts requirements;
          requirements = requirements\<lparr>rules_summary := summary_of_parts parts\<rparr>
      in requirements)"

section \<open>The engagement calculator\<close>

text \<open>
  The numbers of the metrics: \<open>NaN\<close>, the two infinities (\<open>True\<close> for the positive one) and
  the finite numbers, which are exact rationals here (the rounding of doubles is not
  modelled).
\<close>

datatype double = NotANumber | Infinity bool | Finite rat

fun times_double :: "double \<Rightarrow> double \<Rightarrow> double" where
  "times_double (Finite a) (Finite b) = Finite (a * b)"
| "times_double (Infinity s) (Finite b) =
     (if b = 0 then NotANumber else Infinity (s = (0 < b)))"
| "times_double (Finite a) (Infinity t) =
     (if a = 0 then NotANumber else Infinity (t = (0 < a)))"
| "times_double (Infinity s) (Infinity t) = Infinity (s = t)"
| "times_double NotANumber y = NotANumber"
| "times_double x NotANumber = NotANumber"

fun plus_double :: "double \<Rightarrow> double \<Rightarrow> double" where
  "plus_double (Finite a) (Finite b) = Finite (a + b)"
| "plus_double (Infinity s) (Finite b) = Infinity s"
| "plus_double (Finite a) (Infinity t) = Infinity t"
| "plus_double (Infinity s) (Infinity t) = (if s = t then Infinity s else NotANumber)"
| "plus_double NotANumber y = NotANumber"
| "plus_double x NotANumber = NotANumber"

fun minus_double :: "double \<Rightarrow> double \<Rightarrow> double" where
  "minus_double (Finite a) (Finite b) = Finite (a - b)"
| "minus_double (Infinity s) (Finite b) = Infinity s"
| "minus_double (Finite a) (Infinity t) = Infinity (\<not> t)"
| "minus_double (Infinity s) (Infinity t) = (if s = t then NotANumber else Infinity s)"
| "minus_double NotANumber y = NotANumber"
| "minus_double x NotANumber = NotANumber"

text \<open>The quotient of an integer sum by an array length.\<close>

definition divide :: "int \<Rightarrow> nat \<Rightarrow> double" where
  "divide a n =
     (if n = 0 then (if a = 0 then NotANumber else Infinity (0 < a))
      else Finite (of_int a / of_nat n))"

text \<open>\<open>xs.reduce((a, b) => a + b, 0)\<close>.\<close>

definition reduce_sum :: "int list \<Rightarrow> int" where
  "reduce_sum xs = foldl (\<lambda>a b. a + b) 0 xs"

text \<open>
  \<open>Array.prototype.sort\<close> with a comparator: the sort is stable, and an element goes before
  another when the comparator's result is negative; a \<open>NaN\<close> result counts as \<open>0\<close>.
  Inserting the elements from the last to the first, each before the first element it is not
  after, gives that order.
\<close>

fun not_after :: "double \<Rightarrow> bool" where
  "not_after (Finite v) = (v \<le> 0)"
| "not_after (Infinity s) = (\<not> s)"
| "not_after NotANumber = True"

fun insert_by :: "('a \<Rightarrow> 'a \<Rightarrow> double) \<Rightarrow> 'a \<Rightarrow> 'a list \<Rightarrow> 'a list" where
  "insert_by cmp x [] = [x]"
| "insert_by cmp x (y # ys) =
     (if not_after (cmp x y) then x # y # ys else y # insert_by cmp x ys)"

definition sort_by :: "('a \<Rightarrow> 'a \<Rightarrow> double) \<Rightarrow> 'a list \<Rightarrow> 'a list" where
  "sort_by cmp xs = foldr (insert_by cmp) xs []"

text \<open>\<open>xs[i]\<close>: \<open>None\<close> is \<open>undefined\<close>.\<close>

definition index :: "'a list \<Rightarrow> nat \<Rightarrow> 'a option" where
  "index xs i = (if i < length xs then Some (xs ! i) else None)"

text \<open>The comparator \<open>(a, b) => a - b\<close> on scores.\<close>

definition ascending :: "int \<Rightarrow> int \<Rightarrow> double" where
  "ascending a b = minus_double (Finite (of_int a)) (Finite (of_int b))"

record engagement =
  avg_upvotes :: double
  median_upvotes :: "double option"
  avg_comments :: double
  engagement_score :: double

definition engagementScore_of :: "double \<Rightarrow> double \<Rightarrow> double" where
  "engagementScore_of avgUpvotes avgComments =
     plus_double (times_double avgUpvotes (Finite (7 / 10)))
       (times_double avgComments (Finite (3 / 10)))"

text \<open>The server-side calculator: a failed \<open>getHot()\<close> leaves both arrays empty.\<close>

definition calculateEngagement :: "subreddit \<Rightarrow> engagement" where
  "calculateEngagement subreddit =
     (let posts = (case getHot subreddit of None \<Rightarrow> [] | Some ps \<Rightarrow> ps);
          upvotes = map score posts;
          comments = map num_comments posts;
          avgUpvotes = (if length upvotes > 0 then divide (reduce_sum upvotes) (length upvotes)
                        else Finite 0);
          medianUpvotes = (if length upvotes > 0
                           then map_option (\<lambda>v. Finite (of_int v))
                                  (index (sort_by ascending upvotes) (length upvotes div 2))
                           else Some (Finite 0));
          avgComments = (if length comments > 0 then divide (reduce_sum comments) (length comments)
                         else Finite 0);
          engagementScore = engagementScore_of avgUpvotes avgComments
      in \<lparr>avg_upvotes = avgUpvotes, median_upvotes = medianUpvotes,
          avg_comments = avgComments, engagement_score = engagementScore\<rparr>)"

text \<open>
  The browser-side calculator. Its argument is the outcome of \<open>getRecentPosts\<close>: the posts,
  or \<open>None\<close> for a rejected promise, which the \<open>catch\<close> turns into zeros. (\<open>getRecentPosts\<close>
  itself answers every failed request with the empty array.)
\<close>

definition client_calculateEngagement :: "post list option \<Rightarrow> engagement" where
  "client_calculateEngagement fetched =
     (case fetched of
        None \<Rightarrow> \<lparr>avg_upvotes = Finite 0, median_upvotes = Some (Finite 0),
                  avg_comments = Finite 0, engagement_score = Finite 0\<rparr>
      | Some posts \<Rightarrow>
          let upvotes = map score posts;
              comments = map num_comments posts;
              avgUpvotes = divide (reduce_sum upvotes) (length upvotes);
              sortedUpvotes = sort_by ascending upvotes;
              medianUpvotes = map_option (\<lambda>v. Finite (of_int v))
                                (index sortedUpvotes (length sortedUpvotes div 2));
              avgComments = divide (reduce_sum comments) (length comments);
              engagementScore = engagementScore_of avgUpvotes avgComments
          in \<lparr>avg_upvotes = avgUpvotes, median_upvotes = medianUpvotes,
              avg_comments = avgComments, engagement_score = engagementScore\<rparr>)"

section \<open>The niche tag inferencer\<close>

definition nicheKeywords :: "(string \<times> string list) list" where
  "nicheKeywords =
     [(''feet'', [''feet'', ''foot'', ''toes'', ''soles'']),
      (''petite'', [''petite'', ''tiny'', ''small'']),
      (''bbw'', [''bbw'', ''curvy'', ''thick'', ''chubby'']),
      (''latina'', [''latina'', ''hispanic'']),
      (''asian'', [''asian'', ''japanese'', ''korean'']),
      (''ebony'', [''ebony'', ''black'']),
      (''blonde'', [''blonde'', ''blond'']),
      (''redhead'', [''redhead'', ''ginger'']),
      (''brunette'', [''brunette'']),
      (''milf'', [''milf'', ''mom'', ''mature'']),
      (''cosplay'', [''cosplay'', ''costume'']),
      (''tattoo'', [''tattoo'', ''inked'', ''alt'']),
      (''lingerie'', [''lingerie'', ''underwear'']),
      (''amateur'', [''amateur'', ''homemade'', ''real'']),
      (''fitness'', [''fitness'', ''fit'', ''athletic'']),
      (''goth'', [''goth'', ''emo'']),
      (''lesbian'', [''lesbian''])]"

text \<open>\<open>String.prototype.includes\<close>.\<close>

fun starts_with :: "string \<Rightarrow> string \<Rightarrow> bool" where
  "starts_with s [] = True"
| "starts_with [] (k # ks) = False"
| "starts_with (x # s) (k # ks) = (x = k \<and> starts_with s ks)"

fun string_includes :: "string \<Rightarrow> string \<Rightarrow> bool" where
  "string_includes [] kw = starts_with [] kw"
| "string_includes (x # s) kw = (starts_with (x # s) kw \<or> string_includes s kw)"

text \<open>\<open>keywords.some(kw => text.includes(kw))\<close>.\<close>

definition some_keyword :: "string \<Rightarrow> string list \<Rightarrow> bool" where
  "some_keyword text keywords = list_ex (\<lambda>kw. string_includes text kw) keywords"

text \<open>The text the tags are read from.\<close>

definition niche_text :: "subreddit \<Rightarrow> string" where
  "niche_text subreddit =
     toLowerCase (display_name subreddit @ '' '' @
       (case public_description subreddit of None \<Rightarrow> [] | Some d \<Rightarrow> d))"

text \<open>
  \<open>inferNicheTags\<close>; the server-side and the browser-side scraper hold the same text of it.
\<close>

definition inferNicheTags :: "subreddit \<Rightarrow> string list" where
  "inferNicheTags subreddit =
     (let tags = [];
          text = niche_text subreddit;
          tags = foldl (\<lambda>tags entry. if some_keyword text (snd entry) then tags @ [fst entry] else tags)
                   tags nicheKeywords
      in if length tags > 0 then tags else [''general''])"

section \<open>The best-posting-time analyzer\<close>

subsection \<open>Local day and hour of a post\<close>

text \<open>
  \<open>new Date(post.created_utc * 1000)\<close> read in local time. The local time zone adjustment
  belongs to the environment: \<open>tz t\<close> is the offset, in milliseconds, that applies at the time
  value \<open>t\<close>. A day has 86400000 milliseconds, an hour 3600000, and time value 0 fell on a
  Thursday.
\<close>

definition local_time :: "(int \<Rightarrow> int) \<Rightarrow> post \<Rightarrow> int" where
  "local_time tz post = (let t = created_utc post * 1000 in t + tz t)"

definition getDay :: "int \<Rightarrow> nat" where
  "getDay t = nat ((t div 86400000 + 4) mod 7)"

definition getHours :: "int \<Rightarrow> nat" where
  "getHours t = nat ((t div 3600000) mod 24)"

definition dayNames :: "string list" where
  "dayNames = [''sunday'', ''monday'', ''tuesday'', ''wednesday'', ''thursday'', ''friday'',
     ''saturday'']"

definition day_of :: "(int \<Rightarrow> int) \<Rightarrow> post \<Rightarrow> string" where
  "day_of tz post =
     (case index dayNames (getDay (local_time tz post)) of None \<Rightarrow> ''undefined'' | Some d \<Rightarrow> d)"

definition hour_of :: "(int \<Rightarrow> int) \<Rightarrow> post \<Rightarrow> nat" where
  "hour_of tz post = getHours (local_time tz post)"

text \<open>The key \<^verbatim>\<open>`${day}_${hour}`\<close>.\<close>

definition time_key :: "(int \<Rightarrow> int) \<Rightarrow> post \<Rightarrow> string" where
  "time_key tz post = day_of tz post @ ''_'' @ decimal (hour_of tz post)"

subsection \<open>Objects used as dictionaries\<close>

text \<open>
  An object with string keys that are not array indices: its properties in insertion order.
  (No key of this program is the name of an inherited property.)
\<close>

type_synonym 'v object = "(string \<times> 'v) list"

definition obj_get :: "'v object \<Rightarrow> string \<Rightarrow> 'v option" where
  "obj_get obj k = map_of obj k"

fun obj_set :: "string \<Rightarrow> 'v \<Rightarrow> 'v object \<Rightarrow> 'v object" where
  "obj_set k v [] = [(k, v)]"
| "obj_set k v (kv # kvs) = (if fst kv = k then (k, v) # kvs else kv # obj_set k v kvs)"

text \<open>\<^verbatim>\<open>if (!obj[k]) { obj[k] = []; } obj[k].push(x);\<close>\<close>

definition obj_push :: "string \<Rightarrow> 'a \<Rightarrow> 'a list object \<Rightarrow> 'a list object" where
  "obj_push k x obj =
     (let obj = (if obj_get obj k = None then obj_set k [] obj else obj)
      in (case obj_get obj k of None \<Rightarrow> obj | Some arr \<Rightarrow> obj_set k (arr @ [x]) obj))"

subsection \<open>The analysis\<close>

text \<open>\<open>String.prototype.split\<close> with a one-character separator.\<close>

fun split_on :: "char \<Rightarrow> string \<Rightarrow> string list" where
  "split_on sep [] = [[]]"
| "split_on sep (x # s) =
     (if x = sep then [] # split_on sep s
      else (case split_on sep s of [] \<Rightarrow> [[x]] | p # ps \<Rightarrow> (x # p) # ps))"

record hour_score =
  hour :: number
  avgScore :: double

text \<open>The first loop: the scores of the posts, grouped by key.\<close>

definition performanceByTime :: "(int \<Rightarrow> int) \<Rightarrow> post list \<Rightarrow> int list object" where
  "performanceByTime tz posts =
     foldl (\<lambda>performance post. obj_push (time_key tz post) (score post) performance) [] posts"

text \<open>The second loop: per day, the hours with their average scores.\<close>

definition add_best_time :: "hour_score list object \<Rightarrow> string \<times> int list \<Rightarrow> hour_score list object" where
  "add_best_time bestTimes entry =
     (let key = fst entry;
          scores = snd entry;
          parts = split_on (CHR ''_'') key;
          day = (case index parts 0 of None \<Rightarrow> ''undefined'' | Some d \<Rightarrow> d);
          avgScore = divide (reduce_sum scores) (length scores)
      in obj_push day
           \<lparr>hour = (case index parts 1 of None \<Rightarrow> NaN | Some h \<Rightarrow> parseInt h),
            avgScore = avgScore\<rparr> bestTimes)"

text \<open>The comparator \<open>(a, b) => b.score - a.score\<close>.\<close>

definition descending :: "hour_score \<Rightarrow> hour_score \<Rightarrow> double" where
  "descending a b = minus_double (avgScore b) (avgScore a)"

text \<open>The third loop: the top three hours of every day.\<close>

definition top3 :: "hour_score list \<Rightarrow> number list" where
  "top3 hs = map hour (take 3 (sort_by descending hs))"

definition best_times_of :: "(int \<Rightarrow> int) \<Rightarrow> post list \<Rightarrow> number list object" where
  "best_times_of tz posts =
     (let performance = performanceByTime tz posts;
          bestTimes = foldl add_best_time [] performance
      in map (\<lambda>entry. (fst entry, top3 (snd entry))) bestTimes)"

text \<open>Server side: a failed \<open>getTop()\<close> leaves the first loop without posts.\<close>

definition analyzeBestPostingTimes :: "(int \<Rightarrow> int) \<Rightarrow> subreddit \<Rightarrow> number list object" where
  "analyzeBestPostingTimes tz subreddit =
     best_times_of tz (case getTop subreddit of None \<Rightarrow> [] | Some posts \<Rightarrow> posts)"

text \<open>Browser side: the argument is the outcome of \<open>getTopPosts\<close>; a rejection gives \<open>{}\<close>.\<close>

definition client_analyzeBestPostingTimes :: "(int \<Rightarrow> int) \<Rightarrow> post list option \<Rightarrow> number list object" where
  "client_analyzeBestPostingTimes tz fetched =
     (case fetched of None \<Rightarrow> [] | Some posts \<Rightarrow> best_times_of tz posts)"

section \<open>Properties of the matcher\<close>

text \<open>The word a match consumed.\<close>

definition consumed :: "string \<Rightarrow> string \<Rightarrow> string" where
  "consumed s rest = take (length s - length rest) s"

lemma consumed_append [simp]: "consumed (w @ rest) rest = w"
  by (simp add: consumed_def)

lemma greedy_sound: "r \<in> set (greedy p s) \<Longrightarrow> \<exists>w. s = w @ r \<and> list_all p w"
proof (induction s)
  case Nil
  then show ?case by simp
next
  case (Cons x s)
  show ?case
  proof (cases "r = x # s")
    case True
    then show ?thesis by simp
  next
    case False
    with Cons.prems have px: "p x" and "r \<in> set (greedy p s)"
      by (auto split: if_splits)
    with Cons.IH obtain w where "s = w @ r" "list_all p w" by blast
    with px have "x # s = (x # w) @ r \<and> list_all p (x # w)" by simp
    then show ?thesis by blast
  qed
qed

lemma lazy_sound: "r \<in> set (lazy p s) \<Longrightarrow> \<exists>w. s = w @ r \<and> list_all p w"
proof (induction s)
  case Nil
  then show ?case by simp
next
  case (Cons x s)
  show ?case
  proof (cases "r = x # s")
    case True
    then show ?thesis by simp
  next
    case False
    with Cons.prems have px: "p x" and "r \<in> set (lazy p s)"
      by (auto split: if_splits)
    with Cons.IH obtain w where "s = w @ r" "list_all p w" by blast
    with px have "x # s = (x # w) @ r \<and> list_all p (x # w)" by simp
    then show ?thesis by blast
  qed
qed

lemma strip_literal_sound:
  "strip_literal k s = Some r \<Longrightarrow>
     \<exists>w. s = w @ r \<and> length w = length k \<and> map canonicalize w = map canonicalize k"
proof (induction k s rule: strip_literal.induct)
  case (1 s)
  then show ?case by simp
next
  case (2 k ks)
  then show ?case by simp
next
  case (3 k ks x s)
  then have eq: "canonicalize x = canonicalize k" and "strip_literal ks s = Some r"
    by (auto split: if_splits)
  with 3 obtain w where "s = w @ r" "length w = length ks" "map canonicalize w = map canonicalize ks"
    by blast
  with eq have "x # s = (x # w) @ r \<and> length (x # w) = length (k # ks) \<and>
      map canonicalize (x # w) = map canonicalize (k # ks)" by simp
  then show ?case by blast
qed

text \<open>Every match leaves a suffix of the input and only adds captures.\<close>

lemma matches_suffix:
  "m \<in> set (matches r (s, c)) \<Longrightarrow> \<exists>w. s = w @ fst m"
proof (induction r arbitrary: s c m)
  case (Lit k)
  then obtain r where "strip_literal k s = Some r" "m = (r, c)"
    by (cases "strip_literal k s") auto
  then show ?case using strip_literal_sound [of k s r] by auto
next
  case (Plus k)
  then show ?case
    by (cases s) (auto split: if_splits dest!: greedy_sound intro: append_Cons [symmetric])
next
  case (Star k)
  then show ?case by (auto dest!: greedy_sound)
next
  case (LazyStar k)
  then show ?case by (auto dest!: lazy_sound)
next
  case (Opt r)
  from Opt.prems have "m \<in> set (matches r (s, c)) \<or> m = (s, c)" by auto
  then show ?case using Opt.IH [of m s c] by auto
next
  case (Alt r1 r2)
  from Alt.prems have "m \<in> set (matches r1 (s, c)) \<or> m \<in> set (matches r2 (s, c))" by auto
  then show ?case using Alt.IH(1) [of m s c] Alt.IH(2) [of m s c] by auto
next
  case (Seq r1 r2)
  from Seq.prems obtain m1 where m1: "m1 \<in> set (matches r1 (s, c))" "m \<in> set (matches r2 m1)"
    by auto
  from Seq.IH(1) [OF m1(1)] obtain w1 where w1: "s = w1 @ fst m1" by blast
  from m1(2) have "m \<in> set (matches r2 (fst m1, snd m1))" by simp
  from Seq.IH(2) [OF this] obtain w2 where "fst m1 = w2 @ fst m" by blast
  with w1 have "s = (w1 @ w2) @ fst m" by simp
  then show ?case by blast
next
  case (Group i r)
  from Group.prems obtain m' where "m' \<in> set (matches r (s, c))" "fst m = fst m'" by auto
  then show ?case using Group.IH [of m' s c] by auto
qed











subsection \<open>The matcher and the language of a pattern\<close>

text \<open>The words a pattern matches, captures and priorities aside.\<close>

fun lang :: "regex \<Rightarrow> string set" where
  "lang (Lit k) = {w. length w = length k \<and> map canonicalize w = map canonicalize k}"
| "lang (Plus k) = {w. w \<noteq> [] \<and> list_all (in_cls k) w}"
| "lang (Star k) = {w. list_all (in_cls k) w}"
| "lang (LazyStar k) = {w. list_all (in_cls k) w}"
| "lang (Opt r) = insert [] (lang r)"
| "lang (Alt r1 r2) = lang r1 \<union> lang r2"
| "lang (Seq r1 r2) = {w1 @ w2 | w1 w2. w1 \<in> lang r1 \<and> w2 \<in> lang r2}"
| "lang (Group i r) = lang r"

lemma matches_sound:
  "m \<in> set (matches r (s, c)) \<Longrightarrow> \<exists>w. s = w @ fst m \<and> w \<in> lang r"
proof (induction r arbitrary: s c m)
  case (Lit k)
  then obtain r where "strip_literal k s = Some r" "m = (r, c)"
    by (cases "strip_literal k s") auto
  then show ?case using strip_literal_sound [of k s r] by auto
next
  case (Plus k)
  then obtain x s' where s: "s = x # s'" "in_cls k x" "fst m \<in> set (greedy (in_cls k) s')"
    by (cases s) (auto split: if_splits)
  from greedy_sound [OF s(3)] obtain w where "s' = w @ fst m" "list_all (in_cls k) w" by blast
  with s have "s = (x # w) @ fst m \<and> x # w \<in> lang (Plus k)" by simp
  then show ?case by blast
next
  case (Star k)
  then show ?case by (auto dest!: greedy_sound)
next
  case (LazyStar k)
  then show ?case by (auto dest!: lazy_sound)
next
  case (Opt r)
  from Opt.prems have "m \<in> set (matches r (s, c)) \<or> m = (s, c)" by auto
  then show ?case using Opt.IH [of m s c] by auto
next
  case (Alt r1 r2)
  from Alt.prems have "m \<in> set (matches r1 (s, c)) \<or> m \<in> set (matches r2 (s, c))" by auto
  then show ?case using Alt.IH(1) [of m s c] Alt.IH(2) [of m s c] by auto
next
  case (Seq r1 r2)
  from Seq.prems obtain m1 where m1: "m1 \<in> set (matches r1 (s, c))" "m \<in> set (matches r2 m1)"
    by auto
  from Seq.IH(1) [OF m1(1)] obtain w1 where w1: "s = w1 @ fst m1" "w1 \<in> lang r1" by blast
  from m1(2) have "m \<in> set (matches r2 (fst m1, snd m1))" by simp
  from Seq.IH(2) [OF this] obtain w2 where w2: "fst m1 = w2 @ fst m" "w2 \<in> lang r2" by blast
  from w1 w2 have "s = (w1 @ w2) @ fst m \<and> w1 @ w2 \<in> lang (Seq r1 r2)" by auto
  then show ?case by blast
next
  case (Group i r)
  from Group.prems obtain m' where "m' \<in> set (matches r (s, c))" "fst m = fst m'" by auto
  then show ?case using Group.IH [of m' s c] by auto
qed

lemma greedy_complete: "list_all p w \<Longrightarrow> rest \<in> set (greedy p (w @ rest))"
proof (induction w)
  case Nil
  then show ?case by (cases rest) simp_all
next
  case (Cons x w)
  then show ?case by simp
qed

lemma lazy_complete: "list_all p w \<Longrightarrow> rest \<in> set (lazy p (w @ rest))"
proof (induction w)
  case Nil
  then show ?case by (cases rest) simp_all
next
  case (Cons x w)
  then show ?case by simp
qed

lemma strip_literal_complete:
  "length w = length k \<Longrightarrow> map canonicalize w = map canonicalize k \<Longrightarrow>
     strip_literal k (w @ rest) = Some rest"
proof (induction k arbitrary: w)
  case Nil
  then show ?case by simp
next
  case (Cons a k)
  then obtain x w' where "w = x # w'" by (cases w) auto
  with Cons show ?case by simp
qed

lemma matches_complete:
  "w \<in> lang r \<Longrightarrow> \<exists>c'. (rest, c') \<in> set (matches r (w @ rest, c))"
proof (induction r arbitrary: w rest c)
  case (Lit k)
  then show ?case by (simp add: strip_literal_complete)
next
  case (Plus k)
  then obtain x w' where w: "w = x # w'" "in_cls k x" "list_all (in_cls k) w'"
    by (cases w) auto
  with greedy_complete [of "in_cls k" w' rest] show ?case by force
next
  case (Star k)
  then show ?case using greedy_complete [of "in_cls k" w rest] by force
next
  case (LazyStar k)
  then show ?case using lazy_complete [of "in_cls k" w rest] by force
next
  case (Opt r)
  show ?case
  proof (cases "w = []")
    case True
    then show ?thesis by simp
  next
    case False
    with Opt.prems have "w \<in> lang r" by simp
    from Opt.IH [OF this, of rest c] obtain c' where "(rest, c') \<in> set (matches r (w @ rest, c))"
      by blast
    with False show ?thesis by force
  qed
next
  case (Alt r1 r2)
  then show ?case by (metis Un_iff lang.simps(6) matches.simps(6) set_append)
next
  case (Seq r1 r2)
  then obtain w1 w2 where w: "w = w1 @ w2" "w1 \<in> lang r1" "w2 \<in> lang r2" by auto
  from Seq.IH(1) [OF w(2), of "w2 @ rest" c] obtain c1 where
    c1: "(w2 @ rest, c1) \<in> set (matches r1 (w1 @ w2 @ rest, c))" by blast
  from Seq.IH(2) [OF w(3), of rest c1] obtain c2 where
    c2: "(rest, c2) \<in> set (matches r2 (w2 @ rest, c1))" by blast
  from c1 c2 w(1) have "(rest, c2) \<in> set (matches (Seq r1 r2) (w @ rest, c))"
    by (auto intro!: bexI [of _ "(w2 @ rest, c1)"])
  then show ?case by blast
next
  case (Group i r)
  from Group.IH [of w rest c] Group.prems obtain c' where
    "(rest, c') \<in> set (matches r (w @ rest, c))" by auto
  then have "(rest, (i, take (length (w @ rest) - length rest) (w @ rest)) # c')
      \<in> set (matches (Group i r) (w @ rest, c))"
    by force
  then show ?case by blast
qed

lemma exec_None_iff: "exec r s = None \<longleftrightarrow> (\<forall>s'. suffix s' s \<longrightarrow> matches r (s', []) = [])"
proof (induction s)
  case Nil
  then show ?case by (auto simp: exec.simps split: list.splits)
next
  case (Cons x s)
  show ?case
  proof (cases "matches r (x # s, [])")
    case Nil
    with Cons show ?thesis
      by (auto simp: exec.simps suffix_Cons)
  next
    case (Cons m ms)
    then show ?thesis
      by (auto simp: exec.simps intro!: exI [of _ "x # s"])
  qed
qed

text \<open>\<open>test\<close> says that some substring of the text is a word of the pattern.\<close>

lemma test_iff_lang:
  "test r s \<longleftrightarrow> (\<exists>before w after. s = before @ w @ after \<and> w \<in> lang r)"
proof
  assume "test r s"
  then obtain s' where "suffix s' s" "matches r (s', []) \<noteq> []"
    by (auto simp: test_def exec_None_iff)
  then obtain m where s': "suffix s' s" "m \<in> set (matches r (s', []))"
    by (cases "matches r (s', [])") auto
  from matches_sound [OF s'(2)] obtain w where "s' = w @ fst m" "w \<in> lang r" by blast
  with s'(1) show "\<exists>before w after. s = before @ w @ after \<and> w \<in> lang r"
    by (auto simp: suffix_def)
next
  assume "\<exists>before w after. s = before @ w @ after \<and> w \<in> lang r"
  then obtain before w after where s: "s = before @ w @ after" "w \<in> lang r" by blast
  from matches_complete [OF s(2), of after "[]"] have "matches r (w @ after, []) \<noteq> []"
    by auto
  moreover have "suffix (w @ after) s"
    using s(1) by (simp add: suffix_def)
  ultimately show "test r s"
    by (auto simp: test_def exec_None_iff)
qed

subsection \<open>The groups of the patterns\<close>


















section \<open>Properties of the rule parser\<close>

subsection \<open>What each step does to each field\<close>

lemmas step_defs = set_min_karma_def set_min_account_age_days_def check_verification_def
  check_no_links_def check_profile_links_def check_frequency_def get_flairs_def

lemma set_min_karma_fields:
  "min_karma (set_min_karma match r) =
     (case match of None \<Rightarrow> min_karma r | Some m \<Rightarrow> Some (parseInt_group m 1))"
  "min_account_age_days (set_min_karma match r) =
     min_account_age_days r"
  "requires_verification (set_min_karma match r) =
     requires_verification r"
  "allows_links_in_post (set_min_karma match r) =
     allows_links_in_post r"
  "allows_links_in_comments (set_min_karma match r) =
     allows_links_in_comments r"
  "allows_links_in_profile_only (set_min_karma match r) =
     allows_links_in_profile_only r"
  "posting_frequency_limit (set_min_karma match r) =
     posting_frequency_limit r"
  "posting_frequency_hours (set_min_karma match r) =
     posting_frequency_hours r"
  "rules_raw (set_min_karma match r) =
     rules_raw r"
  "rules_summary (set_min_karma match r) =
     rules_summary r"
  by (simp_all add: step_defs split: option.splits)

lemma set_min_karma_flairs:
  "required_flairs (set_min_karma match r) =
     required_flairs r"
  by (simp add: step_defs split: option.splits)

lemma set_min_account_age_days_fields:
  "min_karma (set_min_account_age_days match r) =
     min_karma r"
  "min_account_age_days (set_min_account_age_days match r) =
     (case match of None \<Rightarrow> min_account_age_days r | Some m \<Rightarrow> Some (parseInt_group m 1))"
  "requires_verification (set_min_account_age_days match r) =
     requires_verification r"
  "allows_links_in_post (set_min_account_age_days match r) =
     allows_links_in_post r"
  "allows_links_in_comments (set_min_account_age_days match r) =
     allows_links_in_comments r"
  "allows_links_in_profile_only (set_min_account_age_days match r) =
     allows_links_in_profile_only r"
  "posting_frequency_limit (set_min_account_age_days match r) =
     posting_frequency_limit r"
  "posting_frequency_hours (set_min_account_age_days match r) =
     posting_frequency_hours r"
  "rules_raw (set_min_account_age_days match r) =
     rules_raw r"
  "rules_summary (set_min_account_age_days match r) =
     rules_summary r"
  by (simp_all add: step_defs split: option.splits)

lemma set_min_account_age_days_flairs:
  "required_flairs (set_min_account_age_days match r) =
     required_flairs r"
  by (simp add: step_defs split: option.splits)

lemma check_verification_fields:
  "min_karma (check_verification t r) =
     min_karma r"
  "min_account_age_days (check_verification t r) =
     min_account_age_days r"
  "requires_verification (check_verification t r) =
     (requires_verification r \<or> test verifPattern t)"
  "allows_links_in_post (check_verification t r) =
     allows_links_in_post r"
  "allows_links_in_comments (check_verification t r) =
     allows_links_in_comments r"
  "allows_links_in_profile_only (check_verification t r) =
     allows_links_in_profile_only r"
  "posting_frequency_limit (check_verification t r) =
     posting_frequency_limit r"
  "posting_frequency_hours (check_verification t r) =
     posting_frequency_hours r"
  "rules_raw (check_verification t r) =
     rules_raw r"
  "rules_summary (check_verification t r) =
     rules_summary r"
  by (simp_all add: step_defs split: option.splits)

lemma check_verification_flairs:
  "required_flairs (check_verification t r) =
     required_flairs r"
  by (simp add: step_defs split: option.splits)

lemma check_no_links_fields:
  "min_karma (check_no_links t r) =
     min_karma r"
  "min_account_age_days (check_no_links t r) =
     min_account_age_days r"
  "requires_verification (check_no_links t r) =
     requires_verification r"
  "allows_links_in_post (check_no_links t r) =
     (allows_links_in_post r \<and> \<not> test noLinksPattern t)"
  "allows_links_in_comments (check_no_links t r) =
     (allows_links_in_comments r \<and> \<not> test noLinksPattern t)"
  "allows_links_in_profile_only (check_no_links t r) =
     allows_links_in_profile_only r"
  "posting_frequency_limit (check_no_links t r) =
     posting_frequency_limit r"
  "posting_frequency_hours (check_no_links t r) =
     posting_frequency_hours r"
  "rules_raw (check_no_links t r) =
     rules_raw r"
  "rules_summary (check_no_links t r) =
     rules_summary r"
  by (simp_all add: step_defs split: option.splits)

lemma check_no_links_flairs:
  "required_flairs (check_no_links t r) =
     required_flairs r"
  by (simp add: step_defs split: option.splits)

lemma check_profile_links_fields:
  "min_karma (check_profile_links t r) =
     min_karma r"
  "min_account_age_days (check_profile_links t r) =
     min_account_age_days r"
  "requires_verification (check_profile_links t r) =
     requires_verification r"
  "allows_links_in_post (check_profile_links t r) =
     (allows_links_in_post r \<and> \<not> test profileLinksPattern t)"
  "allows_links_in_comments (check_profile_links t r) =
     (allows_links_in_comments r \<and> \<not> test profileLinksPattern t)"
  "allows_links_in_profile_only (check_profile_links t r) =
     (if test profileLinksPattern t then Some True else allows_links_in_profile_only r)"
  "posting_frequency_limit (check_profile_links t r) =
     posting_frequency_limit r"
  "posting_frequency_hours (check_profile_links t r) =
     posting_frequency_hours r"
  "rules_raw (check_profile_links t r) =
     rules_raw r"
  "rules_summary (check_profile_links t r) =
     rules_summary r"
  by (simp_all add: step_defs split: option.splits)

lemma check_profile_links_flairs:
  "required_flairs (check_profile_links t r) =
     required_flairs r"
  by (simp add: step_defs split: option.splits)

lemma check_frequency_fields:
  "min_karma (check_frequency t r) =
     min_karma r"
  "min_account_age_days (check_frequency t r) =
     min_account_age_days r"
  "requires_verification (check_frequency t r) =
     requires_verification r"
  "allows_links_in_post (check_frequency t r) =
     allows_links_in_post r"
  "allows_links_in_comments (check_frequency t r) =
     allows_links_in_comments r"
  "allows_links_in_profile_only (check_frequency t r) =
     allows_links_in_profile_only r"
  "posting_frequency_limit (check_frequency t r) =
     (case exec freqPattern t of None \<Rightarrow> posting_frequency_limit r
      | Some m \<Rightarrow> (case frequency_hours m of None \<Rightarrow> posting_frequency_limit r
          | Some h \<Rightarrow> Some (''1 per '' @ number_to_string h @ '' hours'')))"
  "posting_frequency_hours (check_frequency t r) =
     (case exec freqPattern t of None \<Rightarrow> posting_frequency_hours r
      | Some m \<Rightarrow> (case frequency_hours m of None \<Rightarrow> posting_frequency_hours r | Some h \<Rightarrow> Some h))"
  "rules_raw (check_frequency t r) =
     rules_raw r"
  "rules_summary (check_frequency t r) =
     rules_summary r"
  by (simp_all add: step_defs split: option.splits)

lemma check_frequency_flairs:
  "required_flairs (check_frequency t r) =
     required_flairs r"
  by (simp add: step_defs split: option.splits)

lemma get_flairs_fields:
  "min_karma (get_flairs sub r) =
     min_karma r"
  "min_account_age_days (get_flairs sub r) =
     min_account_age_days r"
  "requires_verification (get_flairs sub r) =
     requires_verification r"
  "allows_links_in_post (get_flairs sub r) =
     allows_links_in_post r"
  "allows_links_in_comments (get_flairs sub r) =
     allows_links_in_comments r"
  "allows_links_in_profile_only (get_flairs sub r) =
     allows_links_in_profile_only r"
  "posting_frequency_limit (get_flairs sub r) =
     posting_frequency_limit r"
  "posting_frequency_hours (get_flairs sub r) =
     posting_frequency_hours r"
  "rules_raw (get_flairs sub r) =
     rules_raw r"
  "rules_summary (get_flairs sub r) =
     rules_summary r"
  "required_flairs (get_flairs sub r) =
     (case getLinkFlairTemplates sub of None \<Rightarrow> required_flairs r | Some fs \<Rightarrow> flair_texts fs)"
  by (simp_all add: step_defs split: option.splits)

lemmas step_fields = set_min_karma_fields set_min_account_age_days_fields
  check_verification_fields check_no_links_fields check_profile_links_fields
  check_frequency_fields get_flairs_fields set_min_karma_flairs set_min_account_age_days_flairs
  check_verification_flairs check_no_links_flairs check_profile_links_flairs
  check_frequency_flairs

subsection \<open>The fields of the two results\<close>

lemma rules_raw_parseRules: "rules_raw (parseRules subreddit) = build_rulesText subreddit"
  by (simp add: parseRules_def Let_def)

lemma rules_raw_client_parseRules: "rules_raw (client_parseRules rulesText) = rulesText"
  by (simp add: client_parseRules_def Let_def step_fields client_initial_requirements_def)

lemma link_fields_parseRules:
  "allows_links_in_post (parseRules subreddit) =
     (\<not> test noLinksPattern (build_rulesText subreddit) \<and>
      \<not> test profileLinksPattern (build_rulesText subreddit))"
  "allows_links_in_comments (parseRules subreddit) =
     (\<not> test noLinksPattern (build_rulesText subreddit) \<and>
      \<not> test profileLinksPattern (build_rulesText subreddit))"
  "allows_links_in_profile_only (parseRules subreddit) =
     (if test profileLinksPattern (build_rulesText subreddit) then Some True else None)"
  by (simp_all add: parseRules_def Let_def step_fields initial_requirements_def)

lemma link_fields_client_parseRules:
  "allows_links_in_post (client_parseRules rulesText) =
     (\<not> test noLinksPattern rulesText \<and> \<not> test profileLinksPattern rulesText)"
  "allows_links_in_comments (client_parseRules rulesText) =
     (\<not> test noLinksPattern rulesText \<and> \<not> test profileLinksPattern rulesText)"
  "allows_links_in_profile_only (client_parseRules rulesText) =
     (if test profileLinksPattern rulesText then Some True else None)"
  by (simp_all add: client_parseRules_def Let_def step_fields client_initial_requirements_def)

text \<open>A subreddit object whose sidebar is the given text and whose fetches all fail.\<close>

definition sidebar_only :: "string \<Rightarrow> subreddit" where
  "sidebar_only rulesText =
     \<lparr>description = Some rulesText, getRules = None, getLinkFlairTemplates = None,
      display_name = [], public_description = None, getHot = None, getTop = None\<rparr>"

lemma build_rulesText_sidebar_only: "build_rulesText (sidebar_only rulesText) = rulesText"
  by (simp add: build_rulesText_def sidebar_only_def)

subsection \<open>Link policy\<close>

text \<open>
  Claim C5. For every rules text (server side: the text the parser builds, which it returns
  as \<open>rules_raw\<close>): if the text matches \<^verbatim>\<open>/no\s*(external\s*)?links?/i\<close> then
  \<open>allows_links_in_post\<close> and \<open>allows_links_in_comments\<close> are both false in the result;
  if it matches \<^verbatim>\<open>/links?\s*(only\s*)?(in\s*)?profile/i\<close> then both are false and
  \<open>allows_links_in_profile_only\<close> is true; and whenever \<open>allows_links_in_profile_only\<close>
  is true in a result, the other two are false. This holds for the server-side and for the
  browser-side parser.
\<close>

theorem link_policy:
  "(test noLinksPattern (rules_raw (parseRules subreddit)) \<longrightarrow>
      \<not> allows_links_in_post (parseRules subreddit) \<and>
      \<not> allows_links_in_comments (parseRules subreddit)) \<and>
   (test profileLinksPattern (rules_raw (parseRules subreddit)) \<longrightarrow>
      \<not> allows_links_in_post (parseRules subreddit) \<and>
      \<not> allows_links_in_comments (parseRules subreddit) \<and>
      allows_links_in_profile_only (parseRules subreddit) = Some True) \<and>
   (allows_links_in_profile_only (parseRules subreddit) = Some True \<longrightarrow>
      \<not> allows_links_in_post (parseRules subreddit) \<and>
      \<not> allows_links_in_comments (parseRules subreddit)) \<and>
   (test noLinksPattern rulesText \<longrightarrow>
      \<not> allows_links_in_post (client_parseRules rulesText) \<and>
      \<not> allows_links_in_comments (client_parseRules rulesText)) \<and>
   (test profileLinksPattern rulesText \<longrightarrow>
      \<not> allows_links_in_post (client_parseRules rulesText) \<and>
      \<not> allows_links_in_comments (client_parseRules rulesText) \<and>
      allows_links_in_profile_only (client_parseRules rulesText) = Some True) \<and>
   (allows_links_in_profile_only (client_parseRules rulesText) = Some True \<longrightarrow>
      \<not> allows_links_in_post (client_parseRules rulesText) \<and>
      \<not> allows_links_in_comments (client_parseRules rulesText))"
  by (simp add: rules_raw_parseRules link_fields_parseRules link_fields_client_parseRules)

text \<open>
  The scenario of the specification: the rules text
  \<open>No external links allowed, links only in profile.\<close> matches both patterns.
\<close>

theorem link_policy_witness:
  "test noLinksPattern ''No external links allowed, links only in profile.'' \<and>
   test profileLinksPattern ''No external links allowed, links only in profile.'' \<and>
   rules_raw (parseRules (sidebar_only ''No external links allowed, links only in profile.''))
     = ''No external links allowed, links only in profile.'' \<and>
   \<not> allows_links_in_post
       (parseRules (sidebar_only ''No external links allowed, links only in profile.'')) \<and>
   \<not> allows_links_in_comments
       (parseRules (sidebar_only ''No external links allowed, links only in profile.'')) \<and>
   allows_links_in_profile_only
       (parseRules (sidebar_only ''No external links allowed, links only in profile.''))
     = Some True \<and>
   \<not> allows_links_in_post
       (client_parseRules ''No external links allowed, links only in profile.'') \<and>
   \<not> allows_links_in_comments
       (client_parseRules ''No external links allowed, links only in profile.'') \<and>
   allows_links_in_profile_only
       (client_parseRules ''No external links allowed, links only in profile.'') = Some True"
proof -
  have no_links: "test noLinksPattern ''No external links allowed, links only in profile.''"
    by code_simp
  have profile: "test profileLinksPattern ''No external links allowed, links only in profile.''"
    by code_simp
  have raw: "rules_raw (parseRules (sidebar_only ''No external links allowed, links only in profile.''))
      = ''No external links allowed, links only in profile.''"
    by (simp add: rules_raw_parseRules build_rulesText_sidebar_only)
  show ?thesis
    using link_policy [of "sidebar_only ''No external links allowed, links only in profile.''"
        "''No external links allowed, links only in profile.''"] no_links profile raw
    by simp
qed

subsection \<open>The profile-only flag is absent unless the profile pattern matches\<close>

text \<open>
  Claim C10. \<open>allows_links_in_profile_only\<close> is missing from the initializer of both
  parsers, and it is only ever assigned, to \<open>true\<close>, in the branch of the profile-link
  pattern. So for every rules text that does not match
  \<^verbatim>\<open>/links?\s*(only\s*)?(in\s*)?profile/i\<close> the result holds no value for it (the property is
  absent, not \<open>false\<close>), and in no result is it \<open>false\<close>.
\<close>

theorem profile_only_absent:
  "allows_links_in_profile_only initial_requirements = None \<and>
   allows_links_in_profile_only (client_initial_requirements rulesText) = None \<and>
   (\<not> test profileLinksPattern (rules_raw (parseRules subreddit)) \<longrightarrow>
      allows_links_in_profile_only (parseRules subreddit) = None) \<and>
   (\<not> test profileLinksPattern rulesText \<longrightarrow>
      allows_links_in_profile_only (client_parseRules rulesText) = None) \<and>
   allows_links_in_profile_only (parseRules subreddit) \<noteq> Some False \<and>
   allows_links_in_profile_only (client_parseRules rulesText) \<noteq> Some False"
  by (simp add: rules_raw_parseRules link_fields_parseRules link_fields_client_parseRules
      initial_requirements_def client_initial_requirements_def)

theorem profile_only_absent_witness:
  "\<not> test profileLinksPattern ''No links allowed'' \<and>
   rules_raw (parseRules (sidebar_only ''No links allowed'')) = ''No links allowed'' \<and>
   allows_links_in_profile_only (parseRules (sidebar_only ''No links allowed'')) = None \<and>
   allows_links_in_profile_only (client_parseRules ''No links allowed'') = None \<and>
   \<not> allows_links_in_post (client_parseRules ''No links allowed'')"
proof -
  have no_profile: "\<not> test profileLinksPattern ''No links allowed''"
    by code_simp
  have no_links: "test noLinksPattern ''No links allowed''"
    by code_simp
  have raw: "rules_raw (parseRules (sidebar_only ''No links allowed'')) = ''No links allowed''"
    by (simp add: rules_raw_parseRules build_rulesText_sidebar_only)
  show ?thesis
    using profile_only_absent [of "''No links allowed''" "sidebar_only ''No links allowed''"]
      no_profile no_links raw
    by (simp add: link_fields_client_parseRules)
qed

section \<open>Properties of the engagement calculator\<close>


lemma reduce_sum_eq: "reduce_sum xs = sum_list xs"
proof -
  have "foldl (\<lambda>a b. a + b) a xs = a + sum_list xs" for a :: int
    by (induction xs arbitrary: a) simp_all
  then show ?thesis by (simp add: reduce_sum_def)
qed

text \<open>The comparator sort with \<open>(a, b) => a - b\<close> is the ascending sort of the integers.\<close>

lemma insert_by_ascending: "insert_by ascending x ys = insort x ys"
  by (induction ys) (simp_all add: ascending_def)

lemma sort_by_ascending: "sort_by ascending xs = sort xs"
  by (induction xs) (simp_all add: sort_by_def insert_by_ascending)

text \<open>A subreddit object of which only the two post listings matter.\<close>

definition listings :: "post list option \<Rightarrow> post list option \<Rightarrow> subreddit" where
  "listings hotPosts topPosts =
     \<lparr>description = None, getRules = None, getLinkFlairTemplates = None,
      display_name = [], public_description = None, getHot = hotPosts, getTop = topPosts\<rparr>"

definition scored :: "int \<Rightarrow> int \<Rightarrow> post" where
  "scored s n = \<lparr>score = s, num_comments = n, created_utc = 0\<rparr>"

lemma engagement_nonempty:
  "getHot subreddit = Some posts \<Longrightarrow> posts \<noteq> [] \<Longrightarrow>
   calculateEngagement subreddit =
     \<lparr>avg_upvotes = Finite (of_int (sum_list (map score posts)) / of_nat (length posts)),
      median_upvotes = Some (Finite (of_int (sort (map score posts) ! (length posts div 2)))),
      avg_comments = Finite (of_int (sum_list (map num_comments posts)) / of_nat (length posts)),
      engagement_score =
        Finite (of_int (sum_list (map score posts)) / of_nat (length posts) * (7 / 10)
          + of_int (sum_list (map num_comments posts)) / of_nat (length posts) * (3 / 10))\<rparr>"
  by (simp add: calculateEngagement_def Let_def divide_def reduce_sum_eq sort_by_ascending
      index_def engagementScore_of_def)

lemma client_engagement_nonempty:
  "posts \<noteq> [] \<Longrightarrow>
   client_calculateEngagement (Some posts) =
     \<lparr>avg_upvotes = Finite (of_int (sum_list (map score posts)) / of_nat (length posts)),
      median_upvotes = Some (Finite (of_int (sort (map score posts) ! (length posts div 2)))),
      avg_comments = Finite (of_int (sum_list (map num_comments posts)) / of_nat (length posts)),
      engagement_score =
        Finite (of_int (sum_list (map score posts)) / of_nat (length posts) * (7 / 10)
          + of_int (sum_list (map num_comments posts)) / of_nat (length posts) * (3 / 10))\<rparr>"
  by (simp add: client_calculateEngagement_def Let_def divide_def reduce_sum_eq sort_by_ascending
      index_def engagementScore_of_def)

text \<open>
  The server-side calculator on an empty sample (a failed fetch or an empty listing): all four
  outputs are the number 0.
\<close>

lemma server_engagement_empty:
  "getHot subreddit = None \<or> getHot subreddit = Some [] \<Longrightarrow>
   calculateEngagement subreddit =
     \<lparr>avg_upvotes = Finite 0, median_upvotes = Some (Finite 0), avg_comments = Finite 0,
      engagement_score = Finite 0\<rparr>"
  by (auto simp add: calculateEngagement_def Let_def engagementScore_of_def)

text \<open>
  Claim C1, on the browser-side calculator: for the empty sample the claim asks for four
  zeros. The browser-side code divides by the length without the guard its server-side twin
  has, so on the empty array (which \<open>getRecentPosts\<close> returns for a subreddit without posts
  as well as for every failed request) the averages and the score are \<open>NaN\<close> and the median
  is \<open>undefined\<close>.
\<close>

theorem client_engagement_empty:
  "client_calculateEngagement (Some []) =
     \<lparr>avg_upvotes = NotANumber, median_upvotes = None, avg_comments = NotANumber,
      engagement_score = NotANumber\<rparr>"
  by (simp add: client_calculateEngagement_def Let_def divide_def reduce_sum_def sort_by_def
      index_def engagementScore_of_def)

text \<open>
  Claim C3. For every non-empty post sample of size \<open>n\<close>, \<open>medianUpvotes\<close> is the element
  at index \<open>floor(n/2)\<close> of the scores sorted ascending (for an even \<open>n\<close> the upper one of
  the two middle elements), in the server-side and in the browser-side calculator.
\<close>

theorem median_upvotes_index:
  "posts \<noteq> [] \<Longrightarrow> getHot subreddit = Some posts \<Longrightarrow>
   median_upvotes (calculateEngagement subreddit) =
     Some (Finite (of_int (sort (map score posts) ! (length posts div 2)))) \<and>
   median_upvotes (client_calculateEngagement (Some posts)) =
     Some (Finite (of_int (sort (map score posts) ! (length posts div 2))))"
  by (simp add: engagement_nonempty client_engagement_nonempty)

text \<open>
  The scenario of the specification, scores 10, 20, 30 with median 20, and an even sample,
  scores 40, 10, 30, 20 with median 30 (not 25).
\<close>

theorem median_upvotes_index_witness:
  "median_upvotes (calculateEngagement
      (listings (Some [scored 10 2, scored 20 4, scored 30 6]) None)) = Some (Finite 20) \<and>
   median_upvotes (client_calculateEngagement
      (Some [scored 10 2, scored 20 4, scored 30 6])) = Some (Finite 20) \<and>
   median_upvotes (calculateEngagement
      (listings (Some [scored 40 0, scored 10 0, scored 30 0, scored 20 0]) None))
     = Some (Finite 30) \<and>
   median_upvotes (client_calculateEngagement
      (Some [scored 40 0, scored 10 0, scored 30 0, scored 20 0])) = Some (Finite 30)"
  using median_upvotes_index [of "[scored 10 2, scored 20 4, scored 30 6]"
      "listings (Some [scored 10 2, scored 20 4, scored 30 6]) None"]
    median_upvotes_index [of "[scored 40 0, scored 10 0, scored 30 0, scored 20 0]"
      "listings (Some [scored 40 0, scored 10 0, scored 30 0, scored 20 0]) None"]
  by (simp add: listings_def scored_def)


text \<open>The scenario of the specification: the score is \<open>0.7 * 20 + 0.3 * 4 = 15.2\<close>.\<close>

lemma engagement_scenario:
  "calculateEngagement (listings (Some [scored 10 2, scored 20 4, scored 30 6]) None) =
     \<lparr>avg_upvotes = Finite 20, median_upvotes = Some (Finite 20), avg_comments = Finite 4,
      engagement_score = Finite (152 / 10)\<rparr>"
  by (simp add: engagement_nonempty [of _ "[scored 10 2, scored 20 4, scored 30 6]"]
      listings_def scored_def)

section \<open>Properties of the niche tag inferencer\<close>

lemma starts_with_prefix: "starts_with s kw \<longleftrightarrow> prefix kw s"
  by (induction s kw rule: starts_with.induct) auto

text \<open>\<open>includes\<close> is plain substring containment: \<open>sublist kw s\<close> says that \<open>s\<close> is
  \<open>ps @ kw @ ss\<close> for some \<open>ps\<close> and \<open>ss\<close>.\<close>

lemma string_includes_sublist: "string_includes s kw \<longleftrightarrow> sublist kw s"
  by (induction s) (simp_all add: starts_with_prefix sublist_Cons_right)

lemma some_keyword_iff:
  "some_keyword s keywords \<longleftrightarrow> (\<exists>kw \<in> set keywords. sublist kw s)"
  by (simp add: some_keyword_def list_ex_iff string_includes_sublist)

lemma collect_tags:
  "foldl (\<lambda>tags entry. if P entry then tags @ [fst entry] else tags) acc entries =
     acc @ map fst (filter P entries)"
  by (induction entries arbitrary: acc) simp_all

text \<open>The tags whose keywords occur, in the order of the vocabulary.\<close>

definition matched_tags :: "string \<Rightarrow> string list" where
  "matched_tags s = map fst (filter (\<lambda>entry. some_keyword s (snd entry)) nicheKeywords)"

lemma inferNicheTags_eq:
  "inferNicheTags subreddit =
     (if matched_tags (niche_text subreddit) = [] then [''general'']
      else matched_tags (niche_text subreddit))"
  by (simp add: inferNicheTags_def Let_def collect_tags matched_tags_def)

lemma distinct_tags: "distinct (map fst nicheKeywords)"
  by (simp add: nicheKeywords_def)

lemma general_not_a_tag: "''general'' \<notin> fst ` set nicheKeywords"
  by (simp add: nicheKeywords_def)

lemma matched_tags_member:
  assumes "entry \<in> set nicheKeywords"
  shows "fst entry \<in> set (matched_tags s) \<longleftrightarrow> some_keyword s (snd entry)"
proof
  assume "fst entry \<in> set (matched_tags s)"
  then obtain e where e: "e \<in> set nicheKeywords" "some_keyword s (snd e)" "fst e = fst entry"
    by (auto simp: matched_tags_def)
  from distinct_tags e(1) assms e(3) have "e = entry"
    by (metis distinct_map inj_on_def)
  with e(2) show "some_keyword s (snd entry)" by simp
next
  assume "some_keyword s (snd entry)"
  with assms show "fst entry \<in> set (matched_tags s)"
    by (auto simp: matched_tags_def)
qed

text \<open>
  Claim C7. For every input, with \<open>niche_text\<close> the lower-cased concatenation of display name
  and description: the result is never empty; a tag of the vocabulary is in the result
  exactly when one of its keywords is a plain substring of the text; the result holds
  nothing but vocabulary tags and \<open>general\<close>; when no keyword of any tag occurs the result is
  exactly \<open>[general]\<close>, and \<open>general\<close> appears in no other case.
\<close>

theorem niche_tags:
  "inferNicheTags subreddit \<noteq> [] \<and>
   (\<forall>entry \<in> set nicheKeywords.
      fst entry \<in> set (inferNicheTags subreddit) \<longleftrightarrow>
        (\<exists>kw \<in> set (snd entry). sublist kw (niche_text subreddit))) \<and>
   set (inferNicheTags subreddit) \<subseteq> insert ''general'' (fst ` set nicheKeywords) \<and>
   ((\<forall>entry \<in> set nicheKeywords. \<forall>kw \<in> set (snd entry). \<not> sublist kw (niche_text subreddit))
      \<longrightarrow> inferNicheTags subreddit = [''general'']) \<and>
   (''general'' \<in> set (inferNicheTags subreddit) \<longrightarrow>
      (\<forall>entry \<in> set nicheKeywords. \<forall>kw \<in> set (snd entry). \<not> sublist kw (niche_text subreddit)))"
proof (intro conjI)
  let ?text = "niche_text subreddit"
  show "inferNicheTags subreddit \<noteq> []"
    by (simp add: inferNicheTags_eq)
  show "\<forall>entry \<in> set nicheKeywords.
      fst entry \<in> set (inferNicheTags subreddit) \<longleftrightarrow> (\<exists>kw \<in> set (snd entry). sublist kw ?text)"
  proof
    fix entry assume entry: "entry \<in> set nicheKeywords"
    show "fst entry \<in> set (inferNicheTags subreddit) \<longleftrightarrow> (\<exists>kw \<in> set (snd entry). sublist kw ?text)"
    proof (cases "matched_tags ?text = []")
      case True
      with matched_tags_member [OF entry, of ?text] have "\<not> some_keyword ?text (snd entry)"
        by simp
      moreover have "fst entry \<noteq> ''general''"
        using entry general_not_a_tag by force
      ultimately show ?thesis
        using True by (simp add: inferNicheTags_eq some_keyword_iff)
    next
      case False
      then show ?thesis
        using matched_tags_member [OF entry, of ?text]
        by (simp add: inferNicheTags_eq some_keyword_iff)
    qed
  qed
  show "set (inferNicheTags subreddit) \<subseteq> insert ''general'' (fst ` set nicheKeywords)"
    by (auto simp: inferNicheTags_eq matched_tags_def)
  show "(\<forall>entry \<in> set nicheKeywords. \<forall>kw \<in> set (snd entry). \<not> sublist kw ?text)
      \<longrightarrow> inferNicheTags subreddit = [''general'']"
    by (auto simp: inferNicheTags_eq matched_tags_def some_keyword_iff filter_empty_conv)
  show "''general'' \<in> set (inferNicheTags subreddit) \<longrightarrow>
      (\<forall>entry \<in> set nicheKeywords. \<forall>kw \<in> set (snd entry). \<not> sublist kw ?text)"
  proof
    assume g: "''general'' \<in> set (inferNicheTags subreddit)"
    have "matched_tags ?text = []"
    proof (rule ccontr)
      assume "matched_tags ?text \<noteq> []"
      with g have "''general'' \<in> set (matched_tags ?text)" by (simp add: inferNicheTags_eq)
      then have "''general'' \<in> fst ` set nicheKeywords" by (auto simp: matched_tags_def)
      with general_not_a_tag show False by simp
    qed
    then show "\<forall>entry \<in> set nicheKeywords. \<forall>kw \<in> set (snd entry). \<not> sublist kw ?text"
      by (auto simp: matched_tags_def some_keyword_iff filter_empty_conv)
  qed
qed

text \<open>A subreddit object of which only the names matter.\<close>

definition named :: "string \<Rightarrow> string option \<Rightarrow> subreddit" where
  "named name descr =
     \<lparr>description = None, getRules = None, getLinkFlairTemplates = None,
      display_name = name, public_description = descr, getHot = None, getTop = None\<rparr>"

text \<open>
  The scenario of the specification: the display name \<open>r/tinyfeetlovers\<close> with no
  description has the tags \<open>feet\<close> and \<open>petite\<close> (and not, say, \<open>bbw\<close>); a name without any
  keyword gives \<open>[general]\<close>.
\<close>

theorem niche_tags_witness:
  "niche_text (named ''r/tinyfeetlovers'' None) = ''r/tinyfeetlovers '' \<and>
   sublist ''feet'' ''r/tinyfeetlovers '' \<and>
   sublist ''tiny'' ''r/tinyfeetlovers '' \<and>
   ''feet'' \<in> set (inferNicheTags (named ''r/tinyfeetlovers'' None)) \<and>
   ''petite'' \<in> set (inferNicheTags (named ''r/tinyfeetlovers'' None)) \<and>
   ''bbw'' \<notin> set (inferNicheTags (named ''r/tinyfeetlovers'' None)) \<and>
   inferNicheTags (named ''r/Cats'' None) = [''general'']"
proof -
  let ?s = "named ''r/tinyfeetlovers'' None"
  have text_eq: "niche_text ?s = ''r/tinyfeetlovers ''"
    by code_simp
  have "string_includes ''r/tinyfeetlovers '' ''feet''"
    by code_simp
  then have feet: "sublist ''feet'' ''r/tinyfeetlovers ''"
    by (simp only: string_includes_sublist)
  have "string_includes ''r/tinyfeetlovers '' ''tiny''"
    by code_simp
  then have tiny: "sublist ''tiny'' ''r/tinyfeetlovers ''"
    by (simp only: string_includes_sublist)
  have "\<forall>kw \<in> set [''bbw'', ''curvy'', ''thick'', ''chubby''].
      \<not> string_includes ''r/tinyfeetlovers '' kw"
    by code_simp
  then have bbw: "\<forall>kw \<in> set [''bbw'', ''curvy'', ''thick'', ''chubby''].
      \<not> sublist kw ''r/tinyfeetlovers ''"
    by (simp only: string_includes_sublist)
  have entries: "(''feet'', [''feet'', ''foot'', ''toes'', ''soles'']) \<in> set nicheKeywords"
    "(''petite'', [''petite'', ''tiny'', ''small'']) \<in> set nicheKeywords"
    "(''bbw'', [''bbw'', ''curvy'', ''thick'', ''chubby'']) \<in> set nicheKeywords"
    by (simp_all add: nicheKeywords_def)
  have all: "\<forall>entry \<in> set nicheKeywords.
      fst entry \<in> set (inferNicheTags ?s) \<longleftrightarrow> (\<exists>kw \<in> set (snd entry). sublist kw (niche_text ?s))"
    using niche_tags [of ?s] by blast
  have in_feet: "''feet'' \<in> set (inferNicheTags ?s)"
    using bspec [OF all entries(1)] feet text_eq by simp
  have in_petite: "''petite'' \<in> set (inferNicheTags ?s)"
    using bspec [OF all entries(2)] tiny text_eq by simp
  have not_bbw: "''bbw'' \<notin> set (inferNicheTags ?s)"
    using bspec [OF all entries(3)] bbw text_eq by simp
  have cats_text: "niche_text (named ''r/Cats'' None) = ''r/cats ''"
    by code_simp
  have "\<forall>entry \<in> set nicheKeywords. \<forall>kw \<in> set (snd entry). \<not> string_includes ''r/cats '' kw"
    by code_simp
  then have "\<forall>entry \<in> set nicheKeywords. \<forall>kw \<in> set (snd entry).
      \<not> sublist kw (niche_text (named ''r/Cats'' None))"
    by (simp only: string_includes_sublist cats_text)
  then have general: "inferNicheTags (named ''r/Cats'' None) = [''general'']"
    using niche_tags [of "named ''r/Cats'' None"] by blast
  show ?thesis
    using text_eq feet tiny in_feet in_petite not_bbw general by simp
qed

text \<open>Containment ignores word boundaries: \<open>asian\<close> occurs in \<open>asiantown\<close>.\<close>

lemma niche_tags_no_word_boundary:
  "inferNicheTags (named ''AsianTown'' (Some ''Pictures'')) = [''asian'']"
  by code_simp

section \<open>The karma minimum\<close>







section \<open>The posting frequency\<close>







section \<open>The rules summary\<close>
















section \<open>Properties of the best-posting-time analyzer\<close>

subsection \<open>Objects\<close>










subsection \<open>Decimal numerals\<close>








subsection \<open>Keys\<close>





lemma getHours_less: "getHours t < 24"
  by (simp add: getHours_def nat_less_iff)








subsection \<open>The slots of a sample\<close>




subsection \<open>The first loop\<close>




subsection \<open>The second loop\<close>






subsection \<open>The third loop\<close>




subsection \<open>The hours of a day\<close>








subsection \<open>The result\<close>




text \<open>A failed fetch gives the empty mapping on both sides.\<close>

lemma best_posting_times_failed:
  "getTop subreddit = None \<Longrightarrow> analyzeBestPostingTimes tz subreddit = []"
  "client_analyzeBestPostingTimes tz None = []"
  by (simp_all add: analyzeBestPostingTimes_def client_analyzeBestPostingTimes_def
      best_times_of_def performanceByTime_def)



end
